theory Spec2Isabelle
  imports Complex_Main "HOL-Library.Sublist" "HOL-Library.Log_Nat"
begin

section \<open>JavaScript values that reach the component\<close>

text \<open>
  A JavaScript Number is an IEEE-754 double. A finite double is modelled by the real
  number it denotes (\<open>Fin\<close>); the three special values are constructors of their own.
  Comparisons of finite doubles are the comparisons of the reals they denote. The two
  zeros are not told apart: no comparison and no arithmetic result of this program
  depends on the sign of a zero.
\<close>

datatype jsnum = NaN | NegInf | Fin real | PosInf

text \<open>
  The values of the fields of an event record: \<open>undefined\<close> for a field the feed
  omits, \<open>null\<close>, a boolean, a number or a string. The other values of the language
  (a bigint, a symbol, an array or another object), which a function of the component
  can be called with, are added to them by the type \<open>js_any\<close> below.
\<close>

datatype jsval = Undefined | Null | Bool bool | Number jsnum | String string

text \<open>
  \<open>ToNumber\<close> of the language: \<open>undefined\<close> is NaN, \<open>null\<close> is 0, \<open>true\<close> is 1.
  The conversion of a string (the language's \<open>StringToNumber\<close>) is not part of this
  repository: it is the parameter \<open>s2n\<close> of every function that compares or
  multiplies a value.
\<close>

fun ToNumber :: "(string \<Rightarrow> jsnum) \<Rightarrow> jsval \<Rightarrow> jsnum" where
  "ToNumber s2n Undefined = NaN"
| "ToNumber s2n Null = Fin 0"
| "ToNumber s2n (Bool b) = (if b then Fin 1 else Fin 0)"
| "ToNumber s2n (Number n) = n"
| "ToNumber s2n (String s) = s2n s"

text \<open>
  \<open>Number::lessThan\<close>: \<open>None\<close> is the language's \<open>undefined\<close> answer, given when an
  operand is NaN.
\<close>

fun lessThan_num :: "jsnum \<Rightarrow> jsnum \<Rightarrow> bool option" where
  "lessThan_num NaN y = None"
| "lessThan_num x NaN = None"
| "lessThan_num PosInf y = Some False"
| "lessThan_num x PosInf = Some True"
| "lessThan_num x NegInf = Some False"
| "lessThan_num NegInf y = Some True"
| "lessThan_num (Fin a) (Fin b) = Some (a < b)"

text \<open>
  \<open>x >= y\<close> with a number on the right: the left operand is converted by \<open>ToNumber\<close>,
  and the answer is true only when \<open>x < y\<close> is definitely false.
\<close>

definition js_ge :: "(string \<Rightarrow> jsnum) \<Rightarrow> jsval \<Rightarrow> jsnum \<Rightarrow> bool" where
  "js_ge s2n x y = (case lessThan_num (ToNumber s2n x) y of
                      Some False \<Rightarrow> True
                    | _ \<Rightarrow> False)"

text \<open>
  \<open>x <= y\<close> on numbers: true only when \<open>y < x\<close> is definitely false. The component
  does not evaluate it; it states how two marker sizes compare.
\<close>

definition js_le :: "jsnum \<Rightarrow> jsnum \<Rightarrow> bool" where
  "js_le x y = (lessThan_num y x = Some False)"

subsection \<open>Double-precision arithmetic\<close>

text \<open>
  \<open>bexp x\<close> is the binary exponent \<open>\<lfloor>log\<^sub>2 \<bar>x\<bar>\<rfloor>\<close> of a nonzero real, computed on integers.
\<close>

definition bexp :: "real \<Rightarrow> int" where
  "bexp x = (if 1 \<le> \<bar>x\<bar> then bitlen \<lfloor>\<bar>x\<bar>\<rfloor> - 1 else - bitlen (\<lceil>1 / \<bar>x\<bar>\<rceil> - 1))"

text \<open>Rounding to the nearest integer, a tie going to the even neighbour.\<close>

definition rne :: "real \<Rightarrow> int" where
  "rne x = (let n = \<lfloor>x\<rfloor>; r = x - of_int n in
              if r < 1 / 2 then n
              else if 1 / 2 < r then n + 1
              else if even n then n else n + 1)"

text \<open>
  The exponent of the unit in the last place of a binary64 number near \<open>x\<close>: 53
  significant bits, and never below the subnormal spacing \<open>2\<^sup>-\<^sup>1\<^sup>0\<^sup>7\<^sup>4\<close>.
\<close>

definition ulp_exp :: "real \<Rightarrow> int" where
  "ulp_exp x = max (bexp x - 52) (- 1074)"

text \<open>
  \<open>rnd x\<close> is the multiple of the unit in the last place nearest to \<open>x\<close>, a tie going
  to the even multiple. \<open>fl x\<close> is the double that an arithmetic operation with the exact
  result \<open>x\<close> delivers: \<open>rnd x\<close>, or an infinity when that reaches \<open>2\<^sup>1\<^sup>0\<^sup>2\<^sup>4\<close>.
\<close>

definition rnd :: "real \<Rightarrow> real" where
  "rnd x = of_int (rne (x / 2 powi ulp_exp x)) * 2 powi ulp_exp x"

definition fl :: "real \<Rightarrow> jsnum" where
  "fl x = (if x = 0 then Fin 0
           else let y = rnd x
                in if 2 powi 1024 \<le> y then PosInf
                   else if y \<le> - (2 powi 1024) then NegInf
                   else Fin y)"

text \<open>\<open>Number::multiply\<close> and \<open>Number::add\<close>.\<close>

fun js_mul :: "jsnum \<Rightarrow> jsnum \<Rightarrow> jsnum" where
  "js_mul NaN y = NaN"
| "js_mul x NaN = NaN"
| "js_mul (Fin a) (Fin b) = fl (a * b)"
| "js_mul (Fin a) PosInf = (if a = 0 then NaN else if 0 < a then PosInf else NegInf)"
| "js_mul (Fin a) NegInf = (if a = 0 then NaN else if 0 < a then NegInf else PosInf)"
| "js_mul PosInf (Fin b) = (if b = 0 then NaN else if 0 < b then PosInf else NegInf)"
| "js_mul NegInf (Fin b) = (if b = 0 then NaN else if 0 < b then NegInf else PosInf)"
| "js_mul PosInf PosInf = PosInf"
| "js_mul NegInf NegInf = PosInf"
| "js_mul PosInf NegInf = NegInf"
| "js_mul NegInf PosInf = NegInf"

fun js_add :: "jsnum \<Rightarrow> jsnum \<Rightarrow> jsnum" where
  "js_add NaN y = NaN"
| "js_add x NaN = NaN"
| "js_add (Fin a) (Fin b) = fl (a + b)"
| "js_add PosInf NegInf = NaN"
| "js_add NegInf PosInf = NaN"
| "js_add PosInf y = PosInf"
| "js_add NegInf y = NegInf"
| "js_add x PosInf = PosInf"
| "js_add x NegInf = NegInf"

section \<open>Data model\<close>

text \<open>
  One feature record of the feed, with the fields the component reads:
  \<open>quake.id\<close>, \<open>quake.geometry.coordinates\<close> and \<open>quake.properties.{mag, place, time, url}\<close>.
  The field \<open>id\<close> of the source is \<open>id_q\<close> here. A record has its \<open>geometry\<close> with an
  array of coordinates and its \<open>properties\<close>; each value inside may be any primitive
  value, \<open>undefined\<close> when the feed omits it.
\<close>

record properties =
  mag :: jsval
  place :: jsval
  time :: jsval
  url :: jsval

record geometry =
  coordinates :: "jsval list"

record quake =
  id_q :: jsval
  geometry :: geometry
  properties :: properties

record region =
  name :: string
  center :: "real \<times> real"
  zoom :: int

text \<open>The catalog \<open>regions\<close> of the source, in its order.\<close>

definition regions :: "region list" where
  "regions =
    [\<lparr>name = ''World'', center = (20, 0), zoom = 2\<rparr>,
     \<lparr>name = ''North America'', center = (54, - 105), zoom = 3\<rparr>,
     \<lparr>name = ''South America'', center = (- 15, - 60), zoom = 3\<rparr>,
     \<lparr>name = ''Europe'', center = (54, 15), zoom = 4\<rparr>,
     \<lparr>name = ''Asia'', center = (40, 100), zoom = 3\<rparr>,
     \<lparr>name = ''Africa'', center = (0, 20), zoom = 3\<rparr>,
     \<lparr>name = ''Australia'', center = (- 25, 135), zoom = 4\<rparr>,
     \<lparr>name = ''India'', center = (20, 77), zoom = 5\<rparr>,
     \<lparr>name = ''Japan'', center = (36, 138), zoom = 5\<rparr>,
     \<lparr>name = ''California, USA'', center = (36.7783, - 119.4179), zoom = 6\<rparr>]"

text \<open>
  The five \<open>useState\<close> cells of \<open>App\<close>. \<open>error\<close> is \<open>null\<close> (\<open>None\<close>) or a message.
\<close>

record app_state =
  earthquakes :: "quake list"
  loading :: bool
  error :: "string option"
  minMagnitude :: jsnum
  selectedRegion :: region

definition App_init :: app_state where
  "App_init = \<lparr>earthquakes = [], loading = True, error = None,
               minMagnitude = Fin 0, selectedRegion = regions ! 0\<rparr>"

text \<open>A call of one of the five state setters, and its effect on the state.\<close>

datatype setter =
    SetEarthquakes "quake list"
  | SetLoading bool
  | SetError string
  | SetMinMagnitude jsnum
  | SetSelectedRegion region

fun apply_setter :: "app_state \<Rightarrow> setter \<Rightarrow> app_state" where
  "apply_setter st (SetEarthquakes qs) = st\<lparr>earthquakes := qs\<rparr>"
| "apply_setter st (SetLoading b) = st\<lparr>loading := b\<rparr>"
| "apply_setter st (SetError m) = st\<lparr>error := Some m\<rparr>"
| "apply_setter st (SetMinMagnitude t) = st\<lparr>minMagnitude := t\<rparr>"
| "apply_setter st (SetSelectedRegion r) = st\<lparr>selectedRegion := r\<rparr>"

definition apply_setters :: "app_state \<Rightarrow> setter list \<Rightarrow> app_state" where
  "apply_setters st cs = foldl apply_setter st cs"

section \<open>Data loader\<close>

text \<open>
  How the single request can settle: \<open>fetch\<close> rejects with an error carrying a message,
  the response is not ok, \<open>response.json()\<close> rejects with an error carrying a message
  (as does reading \<open>features\<close> of a document that is \<open>null\<close>), or the document is
  parsed and \<open>data.features\<close> is the array of feature records, the shape the feed
  documents. A document without an array \<open>features\<close> is outside this model.
\<close>

datatype fetch_outcome =
    FetchRejected string
  | NotOk
  | JsonRejected string
  | Parsed "quake list"

text \<open>The \<open>try\<close> block: \<open>Inl\<close> is the \<open>message\<close> of the error thrown, \<open>Inr\<close> the features.\<close>

fun fetch_try :: "fetch_outcome \<Rightarrow> string + quake list" where
  "fetch_try (FetchRejected m) = Inl m"
| "fetch_try NotOk = Inl ''Failed to fetch earthquake data!''"
| "fetch_try (JsonRejected m) = Inl m"
| "fetch_try (Parsed fs) = Inr fs"

text \<open>\<open>fetchData\<close>: the setter calls of \<open>try\<close>/\<open>catch\<close>, then the one of \<open>finally\<close>.\<close>

definition fetchData :: "fetch_outcome \<Rightarrow> setter list" where
  "fetchData out =
     (case fetch_try out of
        Inr fs \<Rightarrow> [SetEarthquakes fs]
      | Inl m \<Rightarrow> [SetError m]) @ [SetLoading False]"

definition is_failure :: "fetch_outcome \<Rightarrow> bool" where
  "is_failure out = (case out of Parsed fs \<Rightarrow> False | _ \<Rightarrow> True)"

section \<open>Region selector and magnitude filter\<close>

text \<open>The \<open>onChange\<close> handler of the dropdown, \<open>v\<close> being \<open>e.target.value\<close>.\<close>

definition select_onChange :: "string \<Rightarrow> setter list" where
  "select_onChange v =
     [SetSelectedRegion (case find (\<lambda>r. name r = v) regions of
                           Some r \<Rightarrow> r
                         | None \<Rightarrow> regions ! 0)]"

text \<open>
  The \<open>onChange\<close> handler of the slider, \<open>t\<close> being \<open>parseFloat(e.target.value)\<close>.
\<close>

definition slider_onChange :: "jsnum \<Rightarrow> setter list" where
  "slider_onChange t = [SetMinMagnitude t]"

definition filteredQuakes :: "(string \<Rightarrow> jsnum) \<Rightarrow> app_state \<Rightarrow> quake list" where
  "filteredQuakes s2n st =
     filter (\<lambda>q. js_ge s2n (mag (properties q)) (minMagnitude st)) (earthquakes st)"

section \<open>Markers\<close>

definition getColor :: "(string \<Rightarrow> jsnum) \<Rightarrow> jsval \<Rightarrow> string" where
  "getColor s2n m =
     (if js_ge s2n m (Fin 6) then ''red''
      else if js_ge s2n m (Fin 5) then ''orange''
      else if js_ge s2n m (Fin 4) then ''yellow''
      else ''blue'')"

text \<open>
  \<open>getColor\<close> is written above for the values an event record holds. Called with any
  value of the language, each of its comparisons first converts the argument to a
  primitive (\<open>ToPrimitive\<close>) and then to a numeric, and both steps can throw.

  A primitive is one of the values above, a bigint or a symbol. An object (an array and
  a function are objects) is represented by the outcomes of its successive conversions
  to a primitive, \<open>valueOf\<close> first and then \<open>toString\<close>: \<open>f i\<close> is the primitive that
  conversion number \<open>i\<close> gives, or the exception it throws. The conversions of an array
  or of an object of a parsed document all have the same outcome: an array gives the
  string of its elements joined by commas, an object gives the string
  \<open>[object Object]\<close>, and either throws a \<open>TypeError\<close> when it meets a property named
  \<open>toString\<close>, which a document can only fill with a value that is not callable. A
  conversion method that does not return is not modelled.
\<close>

datatype js_exn = TypeError | OtherError

datatype js_prim = Val jsval | BigInt int | Symbol

datatype js_any = Primitive js_prim | Object "nat \<Rightarrow> js_exn + js_prim"

fun ToPrimitive :: "nat \<Rightarrow> js_any \<Rightarrow> js_exn + js_prim" where
  "ToPrimitive i (Primitive p) = Inr p"
| "ToPrimitive i (Object f) = f i"

text \<open>
  \<open>x >= y\<close> for any \<open>x\<close> and a number \<open>y\<close>, as the conversion number \<open>i\<close> of \<open>x\<close>.
  A symbol has no numeric value: the comparison throws a \<open>TypeError\<close>. A bigint is
  compared by its mathematical value.
\<close>

definition ge_any :: "(string \<Rightarrow> jsnum) \<Rightarrow> nat \<Rightarrow> js_any \<Rightarrow> jsnum \<Rightarrow> js_exn + bool" where
  "ge_any s2n i x y =
     (case ToPrimitive i x of
        Inl e \<Rightarrow> Inl e
      | Inr Symbol \<Rightarrow> Inl TypeError
      | Inr (BigInt n) \<Rightarrow> Inr (lessThan_num (Fin (of_int n)) y = Some False)
      | Inr (Val v) \<Rightarrow> Inr (js_ge s2n v y))"


text \<open>
  The style of the \<open>divIcon\<close>: the three interpolated values of the template
  (\<open>background\<close>, \<open>width\<close>, \<open>height\<close>), as numbers before they are printed with the
  unit \<open>px\<close>. The other properties of the style are constants.
\<close>

record div_icon =
  background :: string
  width :: jsnum
  height :: jsnum

definition createMarkerIcon :: "(string \<Rightarrow> jsnum) \<Rightarrow> jsval \<Rightarrow> div_icon" where
  "createMarkerIcon s2n m =
     (let color = getColor s2n m
      in \<lparr>background = color,
          width = js_add (Fin 8) (js_mul (ToNumber s2n m) (Fin 3)),
          height = js_add (Fin 8) (js_mul (ToNumber s2n m) (Fin 3))\<rparr>)"

text \<open>Array destructuring: a position beyond the array gives \<open>undefined\<close>.\<close>

definition elem :: "jsval list \<Rightarrow> nat \<Rightarrow> jsval" where
  "elem xs i = (if i < length xs then xs ! i else Undefined)"

text \<open>
  The popup shows the magnitude, the place, the depth, the link, and for the time the
  text \<open>new Date(quake.properties.time).toLocaleString()\<close>: \<open>LocaleString v\<close> stands
  for that text, built from the value \<open>v\<close> by the platform.
\<close>

datatype locale_text = LocaleString jsval

record popup =
  popup_mag :: jsval
  popup_place :: jsval
  popup_depth :: jsval
  popup_time :: locale_text
  popup_href :: jsval

record marker =
  key :: jsval
  position :: "jsval \<times> jsval"
  icon :: div_icon
  popup :: popup

text \<open>The body of \<open>filteredQuakes.map\<close>.\<close>

definition quake_marker :: "(string \<Rightarrow> jsnum) \<Rightarrow> quake \<Rightarrow> marker" where
  "quake_marker s2n q =
     (let lon = elem (coordinates (geometry q)) 0;
          lat = elem (coordinates (geometry q)) 1;
          depth = elem (coordinates (geometry q)) 2;
          m = mag (properties q)
      in \<lparr>key = id_q q,
          position = (lat, lon),
          icon = createMarkerIcon s2n m,
          popup = \<lparr>popup_mag = m, popup_place = place (properties q),
                    popup_depth = depth, popup_time = LocaleString (time (properties q)),
                    popup_href = url (properties q)\<rparr>\<rparr>)"

section \<open>Rendering\<close>

text \<open>
  What \<open>App\<close> returns: the loading paragraph, the error paragraph, and the block with
  the controls and the map, each present or absent. A string is truthy when it is
  not empty.
\<close>

record map_view =
  map_center :: "real \<times> real"
  map_zoom :: int
  markers :: "marker list"

record view =
  loading_shown :: bool
  error_shown :: "string option"
  map_shown :: "map_view option"

definition truthy :: "string option \<Rightarrow> bool" where
  "truthy e = (case e of None \<Rightarrow> False | Some m \<Rightarrow> m \<noteq> [])"

definition render :: "(string \<Rightarrow> jsnum) \<Rightarrow> app_state \<Rightarrow> view" where
  "render s2n st =
     \<lparr>loading_shown = loading st,
      error_shown = (if truthy (error st) then error st else None),
      map_shown =
        (if \<not> loading st \<and> \<not> truthy (error st)
         then Some \<lparr>map_center = center (selectedRegion st),
                    map_zoom = zoom (selectedRegion st),
                    markers = map (quake_marker s2n) (filteredQuakes s2n st)\<rparr>
         else None)\<rparr>"

definition rendered_markers :: "(string \<Rightarrow> jsnum) \<Rightarrow> app_state \<Rightarrow> marker list" where
  "rendered_markers s2n st =
     (case map_shown (render s2n st) of None \<Rightarrow> [] | Some mv \<Rightarrow> markers mv)"

section \<open>The session\<close>

text \<open>
  What can happen after the mount: the request issued by the effect settles, the user
  picks a name in the dropdown, the user moves the slider.
\<close>

datatype event = Settled fetch_outcome | RegionPicked string | SliderMoved jsnum

fun handler :: "event \<Rightarrow> setter list" where
  "handler (Settled out) = fetchData out"
| "handler (RegionPicked v) = select_onChange v"
| "handler (SliderMoved t) = slider_onChange t"

definition step :: "app_state \<Rightarrow> event \<Rightarrow> app_state" where
  "step st ev = apply_setters st (handler ev)"

definition run :: "app_state \<Rightarrow> event list \<Rightarrow> app_state" where
  "run st evs = foldl step st evs"

fun is_settled :: "event \<Rightarrow> bool" where
  "is_settled (Settled out) = True"
| "is_settled ev = False"

section \<open>Sample data\<close>

text \<open>
  An event at the coordinates of the documented example
  (longitude \<open>-118.2\<close>, latitude \<open>34.0\<close>, depth \<open>10\<close>) with the magnitude \<open>m\<close>.
\<close>

definition sample_quake :: "real \<Rightarrow> quake" where
  "sample_quake m =
     \<lparr>id_q = String ''us7000'',
      geometry = \<lparr>coordinates = [Number (Fin (- 118.2)), Number (Fin 34), Number (Fin 10)]\<rparr>,
      properties = \<lparr>mag = Number (Fin m), place = String ''10 km N of Los Angeles, CA'',
                    time = Number (Fin 1700000000000),
                    url = String ''https://earthquake.usgs.gov/earthquakes/eventpage/us7000''\<rparr>\<rparr>"

section \<open>Bookkeeping of setter calls\<close>

text \<open>
  The values passed to \<open>setLoading\<close> and to \<open>setError\<close> in a sequence of setter calls.
\<close>

definition loading_calls :: "setter list \<Rightarrow> bool list" where
  "loading_calls cs = concat (map (\<lambda>c. case c of SetLoading b \<Rightarrow> [b] | _ \<Rightarrow> []) cs)"

definition error_calls :: "setter list \<Rightarrow> string list" where
  "error_calls cs = concat (map (\<lambda>c. case c of SetError m \<Rightarrow> [m] | _ \<Rightarrow> []) cs)"

section \<open>Basic facts\<close>

lemma js_ge_Fin [simp]: "js_ge s2n (Number (Fin a)) (Fin b) \<longleftrightarrow> b \<le> a"
  by (cases "a < b") (auto simp: js_ge_def)

lemma js_ge_NaN [simp]: "js_ge s2n (Number NaN) t = False"
  by (simp add: js_ge_def)

lemma js_ge_Undefined [simp]: "js_ge s2n Undefined t = False"
  by (simp add: js_ge_def)

section \<open>Double-precision rounding\<close>

subsection \<open>The binary exponent\<close>

lemma powi_nat: "0 \<le> k \<Longrightarrow> (2::real) powi k = 2 ^ nat k"
  by (simp add: power_int_def)

lemma powi_mono: "k \<le> l \<Longrightarrow> (2::real) powi k \<le> 2 powi l"
  by (rule power_int_increasing) simp_all

lemma powi_strict_mono: "k < l \<Longrightarrow> (2::real) powi k < 2 powi l"
  by (rule power_int_strict_increasing) simp_all

lemma powi_pos [simp]: "0 < (2::real) powi k"
  by simp

lemma bexp_ge1:
  assumes "1 \<le> \<bar>x\<bar>"
  shows "2 powi (bexp x) \<le> \<bar>x\<bar> \<and> \<bar>x\<bar> < 2 powi (bexp x + 1)"
proof -
  let ?n = "\<lfloor>\<bar>x\<bar>\<rfloor>"
  have n: "0 < ?n"
    using assms by linarith
  have b: "2 ^ nat (bitlen ?n - 1) \<le> ?n" "?n < 2 ^ nat (bitlen ?n)"
    using bitlen_bounds [OF n] by simp_all
  have k: "1 \<le> bitlen ?n"
    using n by (simp add: bitlen_alt_def) 
  have e: "bexp x = bitlen ?n - 1"
    using assms by (simp add: bexp_def)
  have "(2::real) powi (bexp x) = of_int (2 ^ nat (bitlen ?n - 1))"
    using k by (simp add: e powi_nat)
  also have "\<dots> \<le> of_int ?n"
    using b(1) by (simp only: of_int_le_iff)
  also have "\<dots> \<le> \<bar>x\<bar>"
    by simp
  finally have lo: "2 powi (bexp x) \<le> \<bar>x\<bar>" .
  have "?n + 1 \<le> 2 ^ nat (bitlen ?n)"
    using b(2) by simp
  then have "of_int (?n + 1) \<le> (of_int (2 ^ nat (bitlen ?n)) :: real)"
    by (simp only: of_int_le_iff)
  then have "of_int ?n + 1 \<le> (2::real) ^ nat (bitlen ?n)"
    by simp
  moreover have "\<bar>x\<bar> < of_int ?n + 1"
    by linarith
  ultimately have "\<bar>x\<bar> < 2 ^ nat (bitlen ?n)"
    by linarith
  moreover have "(2::real) powi (bexp x + 1) = 2 ^ nat (bitlen ?n)"
    using k by (simp add: e powi_nat)
  ultimately have "\<bar>x\<bar> < 2 powi (bexp x + 1)"
    by (simp only:)
  with lo show ?thesis ..
qed

lemma bexp_lt1:
  assumes "x \<noteq> 0" and "\<bar>x\<bar> < 1"
  shows "2 powi (bexp x) \<le> \<bar>x\<bar> \<and> \<bar>x\<bar> < 2 powi (bexp x + 1)"
proof -
  let ?y = "1 / \<bar>x\<bar>"
  let ?c = "\<lceil>?y\<rceil>"
  let ?k = "bitlen (?c - 1)"
  have x: "0 < \<bar>x\<bar>"
    using assms(1) by simp
  have y: "1 < ?y"
    using assms x by simp
  then have c: "0 < ?c - 1"
    by linarith
  have b: "2 ^ nat (?k - 1) \<le> ?c - 1" "?c - 1 < 2 ^ nat ?k"
    using bitlen_bounds [OF c] by simp_all
  have k: "1 \<le> ?k"
    using c by (simp add: bitlen_alt_def)
  have e: "bexp x = - ?k"
    using assms by (simp add: bexp_def)
  have "?c \<le> 2 ^ nat ?k"
    using b(2) by simp
  then have "of_int ?c \<le> (of_int (2 ^ nat ?k) :: real)"
    by (simp only: of_int_le_iff)
  moreover have "?y \<le> of_int ?c"
    by (rule le_of_int_ceiling)
  ultimately have "?y \<le> of_int (2 ^ nat ?k)"
    by (rule order_trans [rotated])
  then have u: "?y \<le> 2 ^ nat ?k"
    by simp
  have "(of_int (2 ^ nat (?k - 1)) :: real) \<le> of_int (?c - 1)"
    using b(1) by (simp only: of_int_le_iff)
  moreover have "of_int (?c - 1) < ?y"
    by linarith
  ultimately have "of_int (2 ^ nat (?k - 1)) < ?y"
    by (rule le_less_trans)
  then have l: "2 ^ nat (?k - 1) < ?y"
    by simp
  have "1 / 2 ^ nat ?k \<le> \<bar>x\<bar>"
    using u x by (simp add: field_simps)
  moreover have "(2::real) powi (bexp x) = 1 / 2 ^ nat ?k"
  proof -
    have "(2::real) powi (bexp x) = 1 / 2 powi ?k"
      unfolding e by (rule power_int_minus_divide)
    then show ?thesis
      using k by (simp add: powi_nat)
  qed
  ultimately have lo: "2 powi (bexp x) \<le> \<bar>x\<bar>"
    by (simp only:)
  have "\<bar>x\<bar> < 1 / 2 ^ nat (?k - 1)"
    using l x by (simp add: field_simps)
  moreover have "(2::real) powi (bexp x + 1) = 1 / 2 ^ nat (?k - 1)"
  proof -
    have "bexp x + 1 = - (?k - 1)"
      by (simp add: e)
    then have "(2::real) powi (bexp x + 1) = 1 / 2 powi (?k - 1)"
      by (simp only: power_int_minus_divide)
    then show ?thesis
      using k by (simp add: powi_nat)
  qed
  ultimately have "\<bar>x\<bar> < 2 powi (bexp x + 1)"
    by (simp only:)
  with lo show ?thesis ..
qed

lemma bexp_bounds:
  assumes "x \<noteq> 0"
  shows "2 powi (bexp x) \<le> \<bar>x\<bar>" and "\<bar>x\<bar> < 2 powi (bexp x + 1)"
  using bexp_ge1 [of x] bexp_lt1 [of x] assms by fastforce+

lemma bexp_le:
  assumes "x \<noteq> 0" and "\<bar>x\<bar> < 2 powi (k + 1)"
  shows "bexp x \<le> k"
proof (rule ccontr)
  assume "\<not> bexp x \<le> k"
  then have "k + 1 \<le> bexp x"
    by simp
  then have "(2::real) powi (k + 1) \<le> 2 powi (bexp x)"
    by (rule powi_mono)
  with bexp_bounds(1) [OF assms(1)] assms(2) show False
    by linarith
qed

lemma bexp_ge:
  assumes "2 powi k \<le> \<bar>x\<bar>"
  shows "k \<le> bexp x"
proof (rule ccontr)
  assume "\<not> k \<le> bexp x"
  then have "bexp x + 1 \<le> k"
    by simp
  then have "(2::real) powi (bexp x + 1) \<le> 2 powi k"
    by (rule powi_mono)
  moreover have "x \<noteq> 0"
  proof
    assume "x = 0"
    with assms have "(2::real) powi k \<le> 0"
      by simp
    with powi_pos [of k] show False
      by linarith
  qed
  ultimately show False
    using bexp_bounds(2) [of x] assms by linarith
qed

lemma bexp_mono:
  assumes "x \<noteq> 0" and "\<bar>x\<bar> \<le> \<bar>y\<bar>"
  shows "bexp x \<le> bexp y"
  using bexp_ge [of "bexp x" y] bexp_bounds(1) [OF assms(1)] assms(2) by linarith

lemma bexp_minus [simp]: "bexp (- x) = bexp x"
  by (simp add: bexp_def)

subsection \<open>Rounding to an integer\<close>

lemma rne_bounds: "\<lfloor>x\<rfloor> \<le> rne x \<and> rne x \<le> \<lfloor>x\<rfloor> + 1"
  by (simp add: rne_def Let_def)

lemma rne_of_int [simp]: "rne (of_int n) = n"
  by (simp add: rne_def)

lemma rne_mono:
  assumes "x \<le> y"
  shows "rne x \<le> rne y"
proof (cases "\<lfloor>x\<rfloor> = \<lfloor>y\<rfloor>")
  case True
  then show ?thesis
    using assms by (auto simp: rne_def Let_def)
next
  case False
  with assms have "\<lfloor>x\<rfloor> + 1 \<le> \<lfloor>y\<rfloor>"
    using floor_mono [OF assms] by linarith
  with rne_bounds [of x] rne_bounds [of y] show ?thesis
    by linarith
qed

lemma rne_minus: "rne (- x) = - rne x"
proof (cases "x = of_int \<lfloor>x\<rfloor>")
  case True
  then obtain n where "x = of_int n" ..
  then have "- x = of_int (- n)"
    by simp
  then show ?thesis
    using \<open>x = of_int n\<close> by (simp only: rne_of_int)
next
  case False
  then have f: "\<lfloor>- x\<rfloor> = - \<lfloor>x\<rfloor> - 1"
    by (simp add: floor_minus ceiling_altdef)
  show ?thesis
    unfolding rne_def Let_def f by (auto simp: algebra_simps)
qed

lemma rne_half: "\<bar>of_int (rne x) - x\<bar> \<le> 1 / 2"
  unfolding rne_def Let_def by (auto simp: abs_le_iff)

lemma rne_nonneg: "0 \<le> x \<Longrightarrow> 0 \<le> rne x"
  using rne_bounds [of x] by (simp add: order_trans [of 0 "\<lfloor>x\<rfloor>"])

lemma ulp_exp_minus [simp]: "ulp_exp (- x) = ulp_exp x"
  by (simp add: ulp_exp_def)

lemma rnd_minus: "rnd (- x) = - rnd x"
  by (simp add: rnd_def rne_minus)

lemma rne_0 [simp]: "rne 0 = 0"
  using rne_of_int [of 0] by simp

lemma rnd_0 [simp]: "rnd 0 = 0"
  by (simp add: rnd_def)

lemma rnd_nonneg: "0 \<le> x \<Longrightarrow> 0 \<le> rnd x"
  unfolding rnd_def by (intro mult_nonneg_nonneg) (simp_all add: rne_nonneg)

lemma ulp_exp_mono: "x \<noteq> 0 \<Longrightarrow> \<bar>x\<bar> \<le> \<bar>y\<bar> \<Longrightarrow> ulp_exp x \<le> ulp_exp y"
  using bexp_mono [of x y] by (simp add: ulp_exp_def)

subsection \<open>Rounding is monotone\<close>

lemma powi_diff: "(2::real) powi k / 2 powi l = 2 powi (k - l)"
  by (simp add: power_int_diff)

lemma rnd_le_pow:
  assumes "0 < x" and "x \<le> 2 powi k" and "ulp_exp x \<le> k"
  shows "rnd x \<le> 2 powi k"
proof -
  let ?e = "ulp_exp x"
  have "x / 2 powi ?e \<le> 2 powi k / 2 powi ?e"
    using assms(2) by (simp add: divide_right_mono)
  also have "\<dots> = of_int (2 ^ nat (k - ?e))"
    using assms(3) by (simp add: powi_diff powi_nat)
  finally have "rne (x / 2 powi ?e) \<le> rne (of_int (2 ^ nat (k - ?e)))"
    by (rule rne_mono)
  then have "rne (x / 2 powi ?e) \<le> 2 ^ nat (k - ?e)"
    by (simp only: rne_of_int)
  then have "(of_int (rne (x / 2 powi ?e)) :: real) \<le> of_int (2 ^ nat (k - ?e))"
    by (simp only: of_int_le_iff)
  then have "rnd x \<le> of_int (2 ^ nat (k - ?e)) * 2 powi ?e"
    unfolding rnd_def by (simp add: mult_right_mono)
  also have "\<dots> = 2 powi (k - ?e) * 2 powi ?e"
    using assms(3) by (simp add: powi_nat)
  also have "\<dots> = 2 powi k"
    by (simp add: power_int_add [symmetric])
  finally show ?thesis .
qed

lemma rnd_ge_pow:
  assumes "2 powi k \<le> x" and "ulp_exp x \<le> k"
  shows "2 powi k \<le> rnd x"
proof -
  let ?e = "ulp_exp x"
  have "(of_int (2 ^ nat (k - ?e)) :: real) = 2 powi k / 2 powi ?e"
    using assms(2) by (simp add: powi_diff powi_nat)
  also have "\<dots> \<le> x / 2 powi ?e"
    using assms(1) by (simp add: divide_right_mono)
  finally have "rne (of_int (2 ^ nat (k - ?e))) \<le> rne (x / 2 powi ?e)"
    by (rule rne_mono)
  then have "2 ^ nat (k - ?e) \<le> rne (x / 2 powi ?e)"
    by (simp only: rne_of_int)
  then have "(of_int (2 ^ nat (k - ?e)) :: real) \<le> of_int (rne (x / 2 powi ?e))"
    by (simp only: of_int_le_iff)
  then have "of_int (2 ^ nat (k - ?e)) * 2 powi ?e \<le> rnd x"
    unfolding rnd_def by (simp add: mult_right_mono)
  moreover have "of_int (2 ^ nat (k - ?e)) * 2 powi ?e = (2::real) powi (k - ?e) * 2 powi ?e"
    using assms(2) by (simp add: powi_nat)
  moreover have "(2::real) powi (k - ?e) * 2 powi ?e = 2 powi k"
    by (simp add: power_int_add [symmetric])
  ultimately show ?thesis
    by simp
qed

lemma rnd_mono_pos:
  assumes "0 < x" and "x \<le> y"
  shows "rnd x \<le> rnd y"
proof -
  have x0: "x \<noteq> 0" and y0: "y \<noteq> 0" and a: "\<bar>x\<bar> \<le> \<bar>y\<bar>"
    using assms by simp_all
  have e: "ulp_exp x \<le> ulp_exp y"
    using ulp_exp_mono [OF x0 a] .
  show ?thesis
  proof (cases "ulp_exp x = ulp_exp y")
    case True
    have "x / 2 powi ulp_exp y \<le> y / 2 powi ulp_exp y"
      using assms(2) by (simp add: divide_right_mono)
    then have "rne (x / 2 powi ulp_exp y) \<le> rne (y / 2 powi ulp_exp y)"
      by (rule rne_mono)
    then have "(of_int (rne (x / 2 powi ulp_exp y)) :: real)
                 \<le> of_int (rne (y / 2 powi ulp_exp y))"
      by (simp only: of_int_le_iff)
    then show ?thesis
      unfolding rnd_def True by (simp add: mult_right_mono)
  next
    case False
    with e have lt: "ulp_exp x < ulp_exp y"
      by simp
    then have ey: "ulp_exp y = bexp y - 52" and bx: "bexp x + 1 \<le> bexp y"
      by (simp_all add: ulp_exp_def max_def split: if_splits)
    let ?k = "bexp y"
    have "x < 2 powi (bexp x + 1)"
      using bexp_bounds(2) [OF x0] assms(1) by simp
    also have "\<dots> \<le> 2 powi ?k"
      using bx by (rule powi_mono)
    finally have xk: "x \<le> 2 powi ?k"
      by simp
    have ky: "2 powi ?k \<le> y"
      using bexp_bounds(1) [OF y0] assms by simp
    have "ulp_exp x \<le> ?k"
      using lt ey by simp
    then have 1: "rnd x \<le> 2 powi ?k"
      using rnd_le_pow [OF assms(1) xk] by simp
    have "ulp_exp y \<le> ?k"
      using ey by simp
    then have 2: "2 powi ?k \<le> rnd y"
      using rnd_ge_pow [OF ky] by simp
    from 1 2 show ?thesis
      by (rule order_trans)
  qed
qed

lemma rnd_mono:
  assumes "x \<le> y"
  shows "rnd x \<le> rnd y"
proof -
  consider "0 < x" | "x \<le> 0" "0 \<le> y" | "y < 0"
    by linarith
  then show ?thesis
  proof cases
    case 1
    then show ?thesis
      using assms by (rule rnd_mono_pos)
  next
    case 2
    have "0 \<le> rnd (- x)"
      using 2(1) by (simp add: rnd_nonneg)
    then have "rnd x \<le> 0"
      by (simp add: rnd_minus)
    also have "0 \<le> rnd y"
      using 2(2) by (rule rnd_nonneg)
    finally show ?thesis .
  next
    case 3
    then have "rnd (- y) \<le> rnd (- x)"
      using assms by (intro rnd_mono_pos) simp_all
    then show ?thesis
      by (simp add: rnd_minus)
  qed
qed

lemma fl_rnd:
  "fl x = (if 2 powi 1024 \<le> rnd x then PosInf
           else if rnd x \<le> - (2 powi 1024) then NegInf
           else Fin (rnd x))"
  by (cases "x = 0") (simp_all add: fl_def Let_def)

lemma fl_not_NaN [simp]: "fl x \<noteq> NaN"
  by (simp add: fl_rnd)

lemma js_le_refl: "x \<noteq> NaN \<Longrightarrow> js_le x x"
  by (cases x) (simp_all add: js_le_def)

lemma js_le_NegInf: "y \<noteq> NaN \<Longrightarrow> js_le NegInf y"
  by (cases y) (simp_all add: js_le_def)

lemma js_le_PosInf: "x \<noteq> NaN \<Longrightarrow> js_le x PosInf"
  by (cases x) (simp_all add: js_le_def)

lemma js_le_Fin [simp]: "js_le (Fin a) (Fin b) \<longleftrightarrow> a \<le> b"
  by (auto simp: js_le_def)

lemma fl_mono:
  assumes "x \<le> y"
  shows "js_le (fl x) (fl y)"
proof -
  have "rnd x \<le> rnd y"
    using assms by (rule rnd_mono)
  moreover have "- ((2::real) powi 1024) < 2 powi 1024"
    by simp
  ultimately show ?thesis
    unfolding fl_rnd by (auto simp: js_le_def)
qed

lemma js_le_simps [simp]:
  "js_le NaN y = False" "js_le x NaN = False"
  "js_le NegInf NegInf" "js_le NegInf (Fin b)" "js_le NegInf PosInf"
  "js_le (Fin a) NegInf = False" "js_le (Fin a) PosInf"
  "js_le PosInf NegInf = False" "js_le PosInf (Fin b) = False" "js_le PosInf PosInf"
  by (cases y; cases x; simp add: js_le_def)+

lemma js_add_8_mono:
  assumes "js_le u v"
  shows "js_le (js_add (Fin 8) u) (js_add (Fin 8) v)"
  using assms
  by (cases u; cases v) (simp_all add: fl_mono js_le_NegInf js_le_PosInf)

lemma js_mul_3_mono:
  assumes "a \<le> b"
  shows "js_le (js_mul (Fin a) (Fin 3)) (js_mul (Fin b) (Fin 3))"
  using assms by (simp add: fl_mono)

subsection \<open>The rounding error\<close>

lemma rnd_error: "\<bar>rnd x - x\<bar> \<le> 2 powi ulp_exp x / 2"
proof -
  let ?u = "(2::real) powi ulp_exp x"
  have u: "0 < ?u"
    by simp
  have "rnd x - x = (of_int (rne (x / ?u)) - x / ?u) * ?u"
    by (simp add: rnd_def algebra_simps)
  then have "\<bar>rnd x - x\<bar> = \<bar>of_int (rne (x / ?u)) - x / ?u\<bar> * ?u"
    using u by (simp add: abs_mult)
  also have "\<dots> \<le> 1 / 2 * ?u"
    using rne_half [of "x / ?u"] u by (intro mult_right_mono) simp_all
  finally show ?thesis
    by simp
qed

lemma ulp_exp_le:
  assumes "\<bar>x\<bar> < 2 powi (k + 1)" and "- 1074 \<le> k - 52"
  shows "2 powi ulp_exp x \<le> (2::real) powi (k - 52) \<or> x = 0"
proof (cases "x = 0")
  case False
  then have "bexp x \<le> k"
    using assms(1) by (rule bexp_le)
  then have "ulp_exp x \<le> k - 52"
    using assms(2) by (simp add: ulp_exp_def)
  then show ?thesis
    by (simp add: powi_mono)
qed simp

lemma rnd_error_below:
  assumes "\<bar>x\<bar> < 2 powi (k + 1)" and "- 1074 \<le> k - 52"
  shows "\<bar>rnd x - x\<bar> \<le> 2 powi (k - 52) / 2"
proof (cases "x = 0")
  case True
  then show ?thesis
    by simp
next
  case False
  with ulp_exp_le [OF assms] have "2 powi ulp_exp x \<le> (2::real) powi (k - 52)"
    by simp
  with rnd_error [of x] show ?thesis
    by linarith
qed

lemma fl_small: "\<bar>rnd x\<bar> < 2 powi 1024 \<Longrightarrow> fl x = Fin (rnd x)"
  by (simp add: fl_rnd abs_less_iff not_le)

lemma size_error:
  assumes "\<bar>a\<bar> \<le> 10"
  shows "\<exists>w. js_add (Fin 8) (js_mul (Fin a) (Fin 3)) = Fin w \<and> \<bar>w - (8 + 3 * a)\<bar> \<le> 1 / 2 ^ 47"
proof -
  let ?v = "rnd (a * 3)"
  let ?w = "rnd (8 + ?v)"
  have "\<bar>a * 3\<bar> < 32"
    using assms by linarith
  then have "\<bar>a * 3\<bar> < 2 powi (4 + 1)"
    by simp
  then have "\<bar>?v - a * 3\<bar> \<le> 2 powi (4 - 52) / 2"
    by (rule rnd_error_below) simp
  then have v: "\<bar>?v - a * 3\<bar> \<le> 1 / 2 ^ 49"
    by simp
  have "(1::real) / 2 ^ 49 \<le> 1"
    by simp
  with v assms have vb: "\<bar>?v\<bar> \<le> 31"
    by linarith
  have "(31::real) < 2 powi 1024"
    using powi_strict_mono [of 5 1024] by simp
  with vb have m: "js_mul (Fin a) (Fin 3) = Fin ?v"
    by (simp add: fl_small)
  have "\<bar>8 + ?v\<bar> < 64"
    using vb by linarith
  then have "\<bar>8 + ?v\<bar> < 2 powi (5 + 1)"
    by simp
  then have "\<bar>?w - (8 + ?v)\<bar> \<le> 2 powi (5 - 52) / 2"
    by (rule rnd_error_below) simp
  then have w: "\<bar>?w - (8 + ?v)\<bar> \<le> 1 / 2 ^ 48"
    by simp
  have "(1::real) / 2 ^ 48 \<le> 1"
    by simp
  with w vb have wb: "\<bar>?w\<bar> \<le> 40"
    by linarith
  have "(40::real) < 2 powi 1024"
    using powi_strict_mono [of 6 1024] by simp
  with wb have s: "js_add (Fin 8) (Fin ?v) = Fin ?w"
    by (simp add: fl_small)
  have "\<bar>?w - (8 + 3 * a)\<bar> \<le> \<bar>?w - (8 + ?v)\<bar> + \<bar>?v - a * 3\<bar>"
    by linarith
  also have "\<dots> \<le> 1 / 2 ^ 48 + 1 / 2 ^ 49"
    using w v by (rule add_mono)
  also have "\<dots> \<le> 1 / 2 ^ 47"
    by simp
  finally have "\<bar>?w - (8 + 3 * a)\<bar> \<le> 1 / 2 ^ 47" .
  then show ?thesis
    using m s by (intro exI [of _ ?w]) (simp only: simp_thms)
qed

lemma size_strict:
  assumes "\<bar>a\<bar> \<le> 10" and "\<bar>b\<bar> \<le> 10" and "a + 1 / 2 ^ 47 \<le> b"
  shows "lessThan_num (js_add (Fin 8) (js_mul (Fin a) (Fin 3)))
           (js_add (Fin 8) (js_mul (Fin b) (Fin 3))) = Some True"
proof -
  from size_error [OF assms(1)] obtain u
    where u: "js_add (Fin 8) (js_mul (Fin a) (Fin 3)) = Fin u" "\<bar>u - (8 + 3 * a)\<bar> \<le> 1 / 2 ^ 47"
    by blast
  from size_error [OF assms(2)] obtain v
    where v: "js_add (Fin 8) (js_mul (Fin b) (Fin 3)) = Fin v" "\<bar>v - (8 + 3 * b)\<bar> \<le> 1 / 2 ^ 47"
    by blast
  have "(0::real) < 1 / 2 ^ 47"
    by simp
  with u(2) v(2) assms(3) have "u < v"
    by linarith
  then show ?thesis
    unfolding u(1) v(1) by simp
qed

lemma size_collision:
  "js_add (Fin 8) (js_mul (Fin (6755399441055746 / 2 ^ 52)) (Fin 3))
     = Fin (7036874417766401 / 2 ^ 49)"
  "js_add (Fin 8) (js_mul (Fin (6755399441055747 / 2 ^ 52)) (Fin 3))
     = Fin (7036874417766401 / 2 ^ 49)"
  "fl (6755399441055746 / 2 ^ 52) = Fin (6755399441055746 / 2 ^ 52)"
  "fl (6755399441055747 / 2 ^ 52) = Fin (6755399441055747 / 2 ^ 52)"
  by (simp_all add: fl_def rnd_def ulp_exp_def bexp_def compute_bitlen rne_def Let_def)

subsection \<open>Decimal literals\<close>

text \<open>The doubles that the decimal literals 3.9, 4.9, 5.9 and 6.2 denote.\<close>

lemma fl_literals:
  "fl 3.9 = Fin (8782019273372467 / 2 ^ 51)"
  "fl 4.9 = Fin (2758454771764429 / 2 ^ 49)"
  "fl 5.9 = Fin (3321404725185741 / 2 ^ 49)"
  "fl 6.2 = Fin (6980579422424269 / 2 ^ 50)"
  by (simp_all add: fl_def rnd_def ulp_exp_def bexp_def compute_bitlen rne_def Let_def)

subsection \<open>One event of the session\<close>

lemma step_Settled:
  "step st (Settled out) =
     (case fetch_try out of
        Inl m \<Rightarrow> st\<lparr>error := Some m, loading := False\<rparr>
      | Inr fs \<Rightarrow> st\<lparr>earthquakes := fs, loading := False\<rparr>)"
  by (simp add: step_def apply_setters_def fetchData_def split: sum.splits)

lemma step_RegionPicked:
  "step st (RegionPicked v) =
     st\<lparr>selectedRegion := (case find (\<lambda>r. name r = v) regions of
                               Some r \<Rightarrow> r | None \<Rightarrow> regions ! 0)\<rparr>"
  by (simp add: step_def apply_setters_def select_onChange_def)

lemma step_SliderMoved: "step st (SliderMoved t) = st\<lparr>minMagnitude := t\<rparr>"
  by (simp add: step_def apply_setters_def slider_onChange_def)

lemma loading_step: "loading (step st ev) = (if is_settled ev then False else loading st)"
  by (cases ev) (simp_all add: step_Settled step_RegionPicked step_SliderMoved split: sum.splits)

lemma error_step:
  "error (step st ev) =
     (case ev of
        Settled out \<Rightarrow> (case fetch_try out of Inl m \<Rightarrow> Some m | Inr fs \<Rightarrow> error st)
      | _ \<Rightarrow> error st)"
  by (cases ev) (simp_all add: step_Settled step_RegionPicked step_SliderMoved split: sum.splits)

lemma earthquakes_step:
  "earthquakes (step st ev) =
     (case ev of
        Settled out \<Rightarrow> (case fetch_try out of Inl m \<Rightarrow> earthquakes st | Inr fs \<Rightarrow> fs)
      | _ \<Rightarrow> earthquakes st)"
  by (cases ev) (simp_all add: step_Settled step_RegionPicked step_SliderMoved split: sum.splits)

lemma loading_calls_handler:
  "loading_calls (handler ev) = (if is_settled ev then [False] else [])"
  by (cases ev)
     (simp_all add: loading_calls_def fetchData_def select_onChange_def slider_onChange_def
        split: sum.splits)

lemma error_calls_handler:
  "error_calls (handler ev) =
     (case ev of Settled out \<Rightarrow> (case fetch_try out of Inl m \<Rightarrow> [m] | Inr fs \<Rightarrow> [])
               | _ \<Rightarrow> [])"
  by (cases ev)
     (simp_all add: error_calls_def fetchData_def select_onChange_def slider_onChange_def
        split: sum.splits)

lemma is_failure_iff: "is_failure out \<longleftrightarrow> (\<exists>m. fetch_try out = Inl m)"
  by (cases out) (simp_all add: is_failure_def)

subsection \<open>Sequences of events\<close>

lemma run_Nil [simp]: "run st [] = st"
  by (simp add: run_def)

lemma run_Cons [simp]: "run st (ev # evs) = run (step st ev) evs"
  by (simp add: run_def)

lemma run_append [simp]: "run st (us @ vs) = run (run st us) vs"
  by (simp add: run_def)

lemma loading_run_user:
  "\<forall>e\<in>set us. \<not> is_settled e \<Longrightarrow> loading (run st us) = loading st"
  by (induction us arbitrary: st) (simp_all add: loading_step)

lemma error_run_user:
  "\<forall>e\<in>set us. \<not> is_settled e \<Longrightarrow> error (run st us) = error st"
  by (induction us arbitrary: st) (auto simp: error_step split: event.splits)


lemma loading_run_False: "\<not> loading st \<Longrightarrow> \<not> loading (run st evs)"
  by (induction evs arbitrary: st) (simp_all add: loading_step)

lemma error_run_kept: "error st \<noteq> None \<Longrightarrow> error (run st evs) \<noteq> None"
  by (induction evs arbitrary: st) (auto simp: error_step split: event.splits sum.splits)

subsection \<open>Lists\<close>

lemma find_distinct_names:
  "distinct (map f xs) \<Longrightarrow> x \<in> set xs \<Longrightarrow> find (\<lambda>r. f r = f x) xs = Some x"
  by (induction xs) (auto simp: image_iff)

lemma find_absent: "v \<notin> set (map f xs) \<Longrightarrow> find (\<lambda>r. f r = v) xs = None"
  by (induction xs) auto

lemma distinct_map_unique:
  "distinct (map f xs) \<Longrightarrow> x \<in> set xs \<Longrightarrow> y \<in> set xs \<Longrightarrow> f x = f y \<Longrightarrow> x = y"
  using inj_onD [of f "set xs" x y] by (simp add: distinct_map)

lemma distinct_region_names: "distinct (map name regions)"
  by (simp add: regions_def)

lemma count_list_filter:
  "count_list (filter P xs) x = (if P x then count_list xs x else 0)"
  by (induction xs) auto

subsection \<open>What is rendered\<close>


lemma rendered_markers_shown:
  "\<not> loading st \<Longrightarrow> \<not> truthy (error st) \<Longrightarrow>
     rendered_markers s2n st = map (quake_marker s2n) (filteredQuakes s2n st)"
  by (simp add: rendered_markers_def render_def)

lemma render_loaded_empty:
  "\<not> loading st \<Longrightarrow> error st = None \<Longrightarrow> earthquakes st = [] \<Longrightarrow>
     loading_shown (render s2n st) = False \<and> error_shown (render s2n st) = None
     \<and> (\<exists>mv. map_shown (render s2n st) = Some mv \<and> markers mv = [])"
  by (simp add: render_def truthy_def filteredQuakes_def)

lemma key_quake_marker: "key (quake_marker s2n q) = id_q q"
  by (simp add: quake_marker_def Let_def)

lemma position_quake_marker:
  "position (quake_marker s2n q) =
     (elem (coordinates (geometry q)) 1, elem (coordinates (geometry q)) 0)"
  by (simp add: quake_marker_def Let_def)

lemma background_quake_marker:
  "background (icon (quake_marker s2n q)) = getColor s2n (mag (properties q))"
  by (simp add: quake_marker_def createMarkerIcon_def Let_def)

lemma filteredQuakes_step_SliderMoved:
  "filteredQuakes s2n (step st (SliderMoved t)) =
     filter (\<lambda>q. js_ge s2n (mag (properties q)) t) (earthquakes st)"
  by (simp add: filteredQuakes_def step_SliderMoved)

lemma filteredQuakes_step_Parsed:
  "filteredQuakes s2n (step st (Settled (Parsed fs))) =
     filter (\<lambda>q. js_ge s2n (mag (properties q)) (minMagnitude st)) fs"
  by (simp add: filteredQuakes_def step_Settled)

section \<open>The filtered list\<close>

text \<open>
  Claim C1. For every threshold and every loaded list, \<open>filteredQuakes\<close> holds exactly
  the events whose magnitude is \<open>>=\<close> the threshold, in their original order: it is a
  subsequence of the loaded list, every event that passes the comparison occurs in it
  as often as in the loaded list, and no other event occurs in it. For a numeric
  magnitude \<open>m\<close> and a numeric threshold \<open>t\<close> the comparison is \<open>t \<le> m\<close>. The list is
  a function of the current state: after the slider moves it is the filter of the same
  loaded list at the new threshold, and after the feed is loaded it is the filter of
  the new list at the current threshold.
\<close>

theorem filteredQuakes_exact:
  "subseq (filteredQuakes s2n st) (earthquakes st)
   \<and> (\<forall>q. count_list (filteredQuakes s2n st) q =
            (if js_ge s2n (mag (properties q)) (minMagnitude st)
             then count_list (earthquakes st) q else 0))
   \<and> set (filteredQuakes s2n st) =
        {q \<in> set (earthquakes st). js_ge s2n (mag (properties q)) (minMagnitude st)}
   \<and> (\<forall>q m t. mag (properties q) = Number (Fin m) \<and> minMagnitude st = Fin t \<longrightarrow>
         (q \<in> set (filteredQuakes s2n st) \<longleftrightarrow> q \<in> set (earthquakes st) \<and> t \<le> m))
   \<and> filteredQuakes s2n (step st (SliderMoved t')) =
        filter (\<lambda>q. js_ge s2n (mag (properties q)) t') (earthquakes st)
   \<and> filteredQuakes s2n (step st (Settled (Parsed fs))) =
        filter (\<lambda>q. js_ge s2n (mag (properties q)) (minMagnitude st)) fs"
proof -
  have 1: "subseq (filteredQuakes s2n st) (earthquakes st)"
    by (simp add: filteredQuakes_def)
  have 2: "\<forall>q. count_list (filteredQuakes s2n st) q =
            (if js_ge s2n (mag (properties q)) (minMagnitude st)
             then count_list (earthquakes st) q else 0)"
    by (simp add: filteredQuakes_def count_list_filter)
  have 3: "set (filteredQuakes s2n st) =
        {q \<in> set (earthquakes st). js_ge s2n (mag (properties q)) (minMagnitude st)}"
    by (simp add: filteredQuakes_def)
  have 4: "\<forall>q m t. mag (properties q) = Number (Fin m) \<and> minMagnitude st = Fin t \<longrightarrow>
         (q \<in> set (filteredQuakes s2n st) \<longleftrightarrow> q \<in> set (earthquakes st) \<and> t \<le> m)"
    by (simp add: filteredQuakes_def)
  show ?thesis
    using 1 2 3 4 filteredQuakes_step_SliderMoved [of s2n st t']
      filteredQuakes_step_Parsed [of s2n st fs]
    by (intro conjI)
qed

theorem filteredQuakes_exact_witness:
  "sample_quake 5.5 \<in> set (filteredQuakes (\<lambda>s. NaN)
      (run App_init [Settled (Parsed [sample_quake 3, sample_quake 5.5]), SliderMoved (Fin 4)]))
   \<and> sample_quake 3 \<notin> set (filteredQuakes (\<lambda>s. NaN)
      (run App_init [Settled (Parsed [sample_quake 3, sample_quake 5.5]), SliderMoved (Fin 4)]))"
proof -
  let ?st = "run App_init [Settled (Parsed [sample_quake 3, sample_quake 5.5]),
                           SliderMoved (Fin 4)]"
  have e: "earthquakes ?st = [sample_quake 3, sample_quake 5.5]"
    by (simp add: earthquakes_step)
  have t: "minMagnitude ?st = Fin 4"
    by (simp add: step_SliderMoved)
  note h = filteredQuakes_exact [of "\<lambda>s. NaN" ?st, THEN conjunct2, THEN conjunct2,
      THEN conjunct2, THEN conjunct1, rule_format]
  have "sample_quake 5.5 \<in> set (filteredQuakes (\<lambda>s. NaN) ?st)"
    using h [where q = "sample_quake 5.5" and m = "5.5" and t = 4] e t
    by (simp add: sample_quake_def)
  moreover have "sample_quake 3 \<notin> set (filteredQuakes (\<lambda>s. NaN) ?st)"
    using h [where q = "sample_quake 3" and m = 3 and t = 4] e t
    by (simp add: sample_quake_def)
  ultimately show ?thesis
    by (rule conjI)
qed

text \<open>
  Claim C7. Filtering the filtered list again at the same threshold gives the same
  list. The slider's handler calls \<open>setMinMagnitude\<close> only, so the loaded list is what
  it was: after two moves of the slider the filtered list is the filter of the whole
  loaded list at the last threshold.
\<close>

theorem filter_idempotent:
  "filteredQuakes s2n (st\<lparr>earthquakes := filteredQuakes s2n st\<rparr>) = filteredQuakes s2n st
   \<and> earthquakes (step st (SliderMoved t)) = earthquakes st
   \<and> handler (SliderMoved t) = [SetMinMagnitude t]
   \<and> filteredQuakes s2n (run st [SliderMoved t1, SliderMoved t2]) =
       filteredQuakes s2n (step st (SliderMoved t2))"
  by (simp add: filteredQuakes_def step_SliderMoved slider_onChange_def)

section \<open>The colour of a marker\<close>

text \<open>
  Claim C2. For a numeric magnitude \<open>getColor\<close> gives \<open>blue\<close> below 4, \<open>yellow\<close> from 4
  and below 5, \<open>orange\<close> from 5 and below 6, \<open>red\<close> from 6; the four colours are
  distinct; 3.9 is blue, 4.0 and 4.9 are yellow, 5.0 and 5.9 are orange, 6.0 and 9.0
  are red, and so are the doubles nearest to 3.9, 4.9 and 5.9; the infinities fall in
  the first and in the last bucket.
\<close>

theorem getColor_buckets:
  "getColor s2n (Number (Fin m)) =
     (if m < 4 then ''blue'' else if m < 5 then ''yellow''
      else if m < 6 then ''orange'' else ''red'')
   \<and> distinct [''blue'', ''yellow'', ''orange'', ''red'']
   \<and> getColor s2n (Number (Fin 3.9)) = ''blue''
   \<and> getColor s2n (Number (Fin 4.0)) = ''yellow''
   \<and> getColor s2n (Number (Fin 4.9)) = ''yellow''
   \<and> getColor s2n (Number (Fin 5.0)) = ''orange''
   \<and> getColor s2n (Number (Fin 5.9)) = ''orange''
   \<and> getColor s2n (Number (Fin 6.0)) = ''red''
   \<and> getColor s2n (Number (Fin 9.0)) = ''red''
   \<and> getColor s2n (Number (fl 3.9)) = ''blue''
   \<and> getColor s2n (Number (fl 4.9)) = ''yellow''
   \<and> getColor s2n (Number (fl 5.9)) = ''orange''
   \<and> getColor s2n (Number NegInf) = ''blue''
   \<and> getColor s2n (Number PosInf) = ''red''"
  by (simp add: getColor_def js_ge_def fl_literals)

subsection \<open>Any value as the argument\<close>

lemma ge_any_Val [simp]: "ge_any s2n i (Primitive (Val v)) y = Inr (js_ge s2n v y)"
  by (simp add: ge_any_def)


lemma ge_any_cases:
  obtains (throws) e where "ge_any s2n i x y = Inl e"
    | (holds) "ge_any s2n i x y = Inr True"
    | (fails) "ge_any s2n i x y = Inr False"
  by (cases "ge_any s2n i x y") auto












section \<open>Selecting a region\<close>

text \<open>
  Claim C4. When the picked name is the name of a catalog entry, the selected region
  becomes that entry (the only one of that name), with its center and zoom; when no
  entry has the name, it becomes the first entry of the catalog.
\<close>

theorem select_region:
  "(v \<in> set (map name regions) \<longrightarrow>
      (\<exists>r. select_onChange v = [SetSelectedRegion r] \<and> r \<in> set regions \<and> name r = v
           \<and> (\<forall>r'\<in>set regions. name r' = v \<longrightarrow> r' = r)
           \<and> selectedRegion (step st (RegionPicked v)) = r
           \<and> center (selectedRegion (step st (RegionPicked v))) = center r
           \<and> zoom (selectedRegion (step st (RegionPicked v))) = zoom r))
   \<and> (v \<notin> set (map name regions) \<longrightarrow>
        select_onChange v = [SetSelectedRegion (hd regions)]
        \<and> selectedRegion (step st (RegionPicked v)) = hd regions)"
proof (intro conjI impI)
  assume "v \<in> set (map name regions)"
  then obtain r where r: "r \<in> set regions" "name r = v"
    by auto
  have f: "find (\<lambda>x. name x = v) regions = Some r"
    using find_distinct_names [OF distinct_region_names r(1)] r(2) by simp
  have u: "\<forall>r'\<in>set regions. name r' = v \<longrightarrow> r' = r"
    using distinct_map_unique [OF distinct_region_names _ r(1)] r(2) by auto
  show "\<exists>r. select_onChange v = [SetSelectedRegion r] \<and> r \<in> set regions \<and> name r = v
           \<and> (\<forall>r'\<in>set regions. name r' = v \<longrightarrow> r' = r)
           \<and> selectedRegion (step st (RegionPicked v)) = r
           \<and> center (selectedRegion (step st (RegionPicked v))) = center r
           \<and> zoom (selectedRegion (step st (RegionPicked v))) = zoom r"
  proof (intro exI [of _ r] conjI)
    show "select_onChange v = [SetSelectedRegion r]"
      by (simp add: select_onChange_def f)
    show s: "selectedRegion (step st (RegionPicked v)) = r"
      by (simp add: step_RegionPicked f)
    show "center (selectedRegion (step st (RegionPicked v))) = center r"
      by (simp only: s)
    show "zoom (selectedRegion (step st (RegionPicked v))) = zoom r"
      by (simp only: s)
  qed (use r u in blast)+
next
  assume a: "v \<notin> set (map name regions)"
  have f: "find (\<lambda>x. name x = v) regions = None"
    using find_absent [OF a] .
  have h: "regions ! 0 = hd regions"
    by (simp add: regions_def)
  show "select_onChange v = [SetSelectedRegion (hd regions)]"
    by (simp add: select_onChange_def f h)
  show "selectedRegion (step st (RegionPicked v)) = hd regions"
    by (simp add: step_RegionPicked f h)
qed

theorem select_region_witness:
  "''Japan'' \<in> set (map name regions)
   \<and> selectedRegion (step App_init (RegionPicked ''Japan''))
       = \<lparr>name = ''Japan'', center = (36, 138), zoom = 5\<rparr>
   \<and> ''Atlantis'' \<notin> set (map name regions)
   \<and> selectedRegion (step App_init (RegionPicked ''Atlantis''))
       = \<lparr>name = ''World'', center = (20, 0), zoom = 2\<rparr>"
proof -
  have a: "''Japan'' \<in> set (map name regions)"
    by (simp add: regions_def)
  have b: "''Atlantis'' \<notin> set (map name regions)"
    by (simp add: regions_def)
  have j: "\<lparr>name = ''Japan'', center = (36, 138), zoom = 5\<rparr> \<in> set regions"
    by (simp add: regions_def)
  from select_region [of "''Japan''" App_init] a
  obtain r where r: "\<forall>r'\<in>set regions. name r' = ''Japan'' \<longrightarrow> r' = r"
      "selectedRegion (step App_init (RegionPicked ''Japan'')) = r"
    by auto
  have "\<lparr>name = ''Japan'', center = (36, 138), zoom = 5\<rparr> = r"
    using bspec [OF r(1) j] by simp
  moreover have "selectedRegion (step App_init (RegionPicked ''Atlantis'')) = hd regions"
    using select_region [of "''Atlantis''" App_init] b by simp
  moreover have "hd regions = \<lparr>name = ''World'', center = (20, 0), zoom = 2\<rparr>"
    by (simp add: regions_def)
  ultimately show ?thesis
    using a b r(2) by simp
qed

section \<open>Loading the feed\<close>




text \<open>
  Claim C6. When the request succeeds, \<open>fetchData\<close> calls \<open>setEarthquakes\<close> with the
  parsed features and \<open>setLoading(false)\<close>, and nothing else: the event list is the
  parsed array whatever it was before, the error cell is left as it was, so it is
  \<open>null\<close> as at the start, and \<open>loading\<close> is false. With an empty array the loading and error paragraphs are absent and the
  map is rendered with no marker.
\<close>

theorem fetch_success:
  assumes "\<forall>e\<in>set us. \<not> is_settled e"
  shows "earthquakes (step st (Settled (Parsed fs))) = fs
       \<and> error (step st (Settled (Parsed fs))) = error st
       \<and> fetchData (Parsed fs) = [SetEarthquakes fs, SetLoading False]
       \<and> earthquakes (run App_init (us @ [Settled (Parsed fs)])) = fs
       \<and> error (run App_init (us @ [Settled (Parsed fs)])) = None
       \<and> loading (run App_init (us @ [Settled (Parsed fs)])) = False
       \<and> (fs = [] \<longrightarrow>
            loading_shown (render s2n (run App_init (us @ [Settled (Parsed fs)]))) = False
          \<and> error_shown (render s2n (run App_init (us @ [Settled (Parsed fs)]))) = None
          \<and> (\<exists>mv. map_shown (render s2n (run App_init (us @ [Settled (Parsed fs)]))) = Some mv
                   \<and> markers mv = []))"
proof -
  let ?st = "run App_init (us @ [Settled (Parsed fs)])"
  have q: "earthquakes ?st = fs"
    by (simp add: earthquakes_step)
  have e: "error ?st = None"
    using assms by (simp add: error_step error_run_user App_init_def)
  have l: "loading ?st = False"
    by (simp add: loading_step)
  have r: "fs = [] \<longrightarrow> loading_shown (render s2n ?st) = False
          \<and> error_shown (render s2n ?st) = None
          \<and> (\<exists>mv. map_shown (render s2n ?st) = Some mv \<and> markers mv = [])"
  proof
    assume "fs = []"
    with q have q0: "earthquakes ?st = []"
      by simp
    have l0: "\<not> loading ?st"
      using l by simp
    show "loading_shown (render s2n ?st) = False
          \<and> error_shown (render s2n ?st) = None
          \<and> (\<exists>mv. map_shown (render s2n ?st) = Some mv \<and> markers mv = [])"
      by (rule render_loaded_empty [OF l0 e q0])
  qed
  have "earthquakes (step st (Settled (Parsed fs))) = fs"
    by (simp add: earthquakes_step)
  moreover have "error (step st (Settled (Parsed fs))) = error st"
    by (simp add: error_step)
  moreover have "fetchData (Parsed fs) = [SetEarthquakes fs, SetLoading False]"
    by (simp add: fetchData_def)
  ultimately show ?thesis
    using q e l r by (intro conjI)
qed

theorem fetch_success_witness:
  "earthquakes (run App_init [Settled (Parsed [])]) = []
   \<and> error (run App_init [Settled (Parsed [])]) = None
   \<and> loading (run App_init [Settled (Parsed [])]) = False
   \<and> loading_shown (render (\<lambda>s. NaN) (run App_init [Settled (Parsed [])])) = False
   \<and> error_shown (render (\<lambda>s. NaN) (run App_init [Settled (Parsed [])])) = None
   \<and> map_shown (render (\<lambda>s. NaN) (run App_init [Settled (Parsed [])]))
       = Some \<lparr>map_center = (20, 0), map_zoom = 2, markers = []\<rparr>"
proof -
  have u: "\<forall>e\<in>set []. \<not> is_settled e"
    by simp
  note t = fetch_success [OF u, of App_init "[]" "\<lambda>s. NaN", simplified append_Nil]
  have 1: "earthquakes (run App_init [Settled (Parsed [])]) = []"
    using t by (elim conjE)
  have 2: "error (run App_init [Settled (Parsed [])]) = None"
    using t by (elim conjE)
  have 3: "loading (run App_init [Settled (Parsed [])]) = False"
    using t by (elim conjE)
  have 4: "loading_shown (render (\<lambda>s. NaN) (run App_init [Settled (Parsed [])])) = False
          \<and> error_shown (render (\<lambda>s. NaN) (run App_init [Settled (Parsed [])])) = None"
    using t by simp
  have 5: "map_shown (render (\<lambda>s. NaN) (run App_init [Settled (Parsed [])]))
       = Some \<lparr>map_center = (20, 0), map_zoom = 2, markers = []\<rparr>"
    by (simp add: render_def step_Settled App_init_def truthy_def filteredQuakes_def
          regions_def)
  show ?thesis
    using 1 2 3 4 5 by (intro conjI) simp_all
qed

text \<open>
  Claim C5. \<open>loading\<close> starts true and the error cell starts \<open>null\<close>, and they stay so
  until the request settles. The settlement calls \<open>setLoading\<close> once, with \<open>false\<close>;
  no handler of the user's calls \<open>setLoading\<close> or \<open>setError\<close>. After the settlement
  \<open>loading\<close> is false and the error cell holds the message of the failure, or \<open>null\<close>
  after a success, whatever the user does next. From any state, once \<open>loading\<close> is
  false no sequence of events makes it true, and once the error cell holds a message
  no sequence of events empties it.
\<close>

theorem loader_state_machine:
  assumes "\<forall>e\<in>set us. \<not> is_settled e"
    and "\<forall>e\<in>set vs. \<not> is_settled e"
  shows "loading App_init \<and> error App_init = None
       \<and> loading (run App_init us) \<and> error (run App_init us) = None
       \<and> loading_calls (handler (Settled out)) = [False]
       \<and> (\<forall>e\<in>set (us @ vs). loading_calls (handler e) = [] \<and> error_calls (handler e) = [])
       \<and> loading (run App_init (us @ Settled out # vs)) = False
       \<and> error (run App_init (us @ Settled out # vs))
           = (case fetch_try out of Inl m \<Rightarrow> Some m | Inr fs \<Rightarrow> None)
       \<and> (error (run App_init (us @ Settled out # vs)) \<noteq> None \<longleftrightarrow> is_failure out)
       \<and> (\<not> loading st \<longrightarrow> \<not> loading (run st evs))
       \<and> (error st \<noteq> None \<longrightarrow> error (run st evs) \<noteq> None)"
proof -
  have 1: "loading App_init \<and> error App_init = None"
    by (simp add: App_init_def)
  have 2: "loading (run App_init us) \<and> error (run App_init us) = None"
    using assms(1) 1 by (simp add: loading_run_user error_run_user)
  have 3: "loading_calls (handler (Settled out)) = [False]"
    using loading_calls_handler [of "Settled out"] by simp
  have 4: "\<forall>e\<in>set (us @ vs). loading_calls (handler e) = [] \<and> error_calls (handler e) = []"
    using assms by (auto simp: loading_calls_handler error_calls_handler split: event.splits)
  have 5: "loading (run App_init (us @ Settled out # vs)) = False"
    using assms(2) by (simp add: loading_run_user loading_step)
  have 6: "error (run App_init (us @ Settled out # vs))
           = (case fetch_try out of Inl m \<Rightarrow> Some m | Inr fs \<Rightarrow> None)"
    using assms(2) 2 by (simp add: error_run_user error_step split: sum.splits)
  have 7: "error (run App_init (us @ Settled out # vs)) \<noteq> None \<longleftrightarrow> is_failure out"
    unfolding 6 by (auto simp: is_failure_iff split: sum.splits)
  have 8: "\<not> loading st \<longrightarrow> \<not> loading (run st evs)"
    using loading_run_False by blast
  have 9: "error st \<noteq> None \<longrightarrow> error (run st evs) \<noteq> None"
    using error_run_kept by blast
  show ?thesis
    using 1 2 3 4 5 6 7 8 9 by (intro conjI) simp_all
qed

theorem loader_state_machine_witness:
  "loading (run App_init [SliderMoved (Fin 1)])
   \<and> loading (run App_init
        [SliderMoved (Fin 1), Settled (JsonRejected ''Unexpected token''),
         RegionPicked ''Asia'']) = False
   \<and> error (run App_init
        [SliderMoved (Fin 1), Settled (JsonRejected ''Unexpected token''),
         RegionPicked ''Asia'']) = Some ''Unexpected token''
   \<and> \<not> loading (run (run App_init [Settled NotOk]) [Settled (Parsed []), SliderMoved (Fin 3)])
   \<and> error (run (run App_init [Settled NotOk]) [Settled (Parsed []), SliderMoved (Fin 3)])
        \<noteq> None"
proof -
  have u: "\<forall>e\<in>set [SliderMoved (Fin 1)]. \<not> is_settled e"
    by simp
  have v: "\<forall>e\<in>set [RegionPicked ''Asia'']. \<not> is_settled e"
    by simp
  have a: "\<not> loading (run App_init [Settled NotOk])"
    by (simp add: loading_step)
  have b: "error (run App_init [Settled NotOk]) \<noteq> None"
    by (simp add: error_step)
  note t = loader_state_machine [OF u v, of "JsonRejected ''Unexpected token''"
      "run App_init [Settled NotOk]" "[Settled (Parsed []), SliderMoved (Fin 3)]"]
  have 1: "loading (run App_init [SliderMoved (Fin 1)])"
    using t by (elim conjE)
  have 2: "loading (run App_init ([SliderMoved (Fin 1)]
             @ Settled (JsonRejected ''Unexpected token'') # [RegionPicked ''Asia''])) = False"
    using t by (elim conjE)
  have 3: "error (run App_init ([SliderMoved (Fin 1)]
             @ Settled (JsonRejected ''Unexpected token'') # [RegionPicked ''Asia'']))
           = (case fetch_try (JsonRejected ''Unexpected token'') of
                Inl m \<Rightarrow> Some m | Inr fs \<Rightarrow> None)"
    using t by (elim conjE)
  have 4: "\<not> loading (run (run App_init [Settled NotOk])
                          [Settled (Parsed []), SliderMoved (Fin 3)])"
    using t a by (elim conjE) (erule mp)
  have 5: "error (run (run App_init [Settled NotOk])
                      [Settled (Parsed []), SliderMoved (Fin 3)]) \<noteq> None"
    using t b by (elim conjE) (erule mp)
  show ?thesis
    using 1 2 3 4 5 by simp
qed

section \<open>The markers on the map\<close>

text \<open>
  Claim C8. When the map is rendered (\<open>loading\<close> false, no error shown), there is one
  marker for each event of the filtered list, in the same order: its key is the event's
  \<open>id\<close>, its position is the pair of the second and the first coordinate, so
  (latitude, longitude) for coordinates stored as [longitude, latitude, depth], and its
  colour is \<open>getColor\<close> of the event's magnitude. For a feed of one event of magnitude
  6.2 at (longitude -118.2, latitude 34.0, depth 10), the initial threshold 0 gives one
  marker, at (34.0, -118.2) and red, and the threshold 6.5 gives none.
\<close>

theorem markers_of_filtered:
  "(\<not> loading st \<and> \<not> truthy (error st) \<longrightarrow>
      length (rendered_markers s2n st) = length (filteredQuakes s2n st)
    \<and> (\<forall>i<length (filteredQuakes s2n st).
          key (rendered_markers s2n st ! i) = id_q (filteredQuakes s2n st ! i)
        \<and> position (rendered_markers s2n st ! i) =
            (elem (coordinates (geometry (filteredQuakes s2n st ! i))) 1,
             elem (coordinates (geometry (filteredQuakes s2n st ! i))) 0)
        \<and> (\<forall>lon lat depth.
              coordinates (geometry (filteredQuakes s2n st ! i)) = [lon, lat, depth] \<longrightarrow>
              position (rendered_markers s2n st ! i) = (lat, lon))
        \<and> background (icon (rendered_markers s2n st ! i)) =
            getColor s2n (mag (properties (filteredQuakes s2n st ! i)))))
   \<and> (coordinates (geometry q) = [Number (Fin (- 118.2)), Number (Fin 34.0), Number (Fin 10)]
      \<and> mag (properties q) = Number (Fin 6.2) \<longrightarrow>
        (\<exists>mk. rendered_markers s2n (run App_init [Settled (Parsed [q])]) = [mk]
             \<and> key mk = id_q q
             \<and> position mk = (Number (Fin 34.0), Number (Fin (- 118.2)))
             \<and> background (icon mk) = ''red'')
      \<and> minMagnitude (run App_init [Settled (Parsed [q])]) = Fin 0
      \<and> rendered_markers s2n (run App_init [Settled (Parsed [q]), SliderMoved (Fin 6.5)]) = [])"
proof (intro conjI impI)
  assume "\<not> loading st \<and> \<not> truthy (error st)"
  then have m: "rendered_markers s2n st = map (quake_marker s2n) (filteredQuakes s2n st)"
    by (simp add: rendered_markers_shown)
  show "length (rendered_markers s2n st) = length (filteredQuakes s2n st)"
    unfolding m by simp
  show "\<forall>i<length (filteredQuakes s2n st).
          key (rendered_markers s2n st ! i) = id_q (filteredQuakes s2n st ! i)
        \<and> position (rendered_markers s2n st ! i) =
            (elem (coordinates (geometry (filteredQuakes s2n st ! i))) 1,
             elem (coordinates (geometry (filteredQuakes s2n st ! i))) 0)
        \<and> (\<forall>lon lat depth.
              coordinates (geometry (filteredQuakes s2n st ! i)) = [lon, lat, depth] \<longrightarrow>
              position (rendered_markers s2n st ! i) = (lat, lon))
        \<and> background (icon (rendered_markers s2n st ! i)) =
            getColor s2n (mag (properties (filteredQuakes s2n st ! i)))"
    unfolding m
    by (simp add: key_quake_marker position_quake_marker background_quake_marker elem_def)
next
  assume a: "coordinates (geometry q) = [Number (Fin (- 118.2)), Number (Fin 34.0), Number (Fin 10)]
      \<and> mag (properties q) = Number (Fin 6.2)"
  let ?s1 = "run App_init [Settled (Parsed [q])]"
  let ?s2 = "run App_init [Settled (Parsed [q]), SliderMoved (Fin 6.5)]"
  have g1: "\<not> loading ?s1" "\<not> truthy (error ?s1)"
    by (simp_all add: step_Settled App_init_def truthy_def)
  have g2: "\<not> loading ?s2" "\<not> truthy (error ?s2)"
    by (simp_all add: step_Settled step_SliderMoved App_init_def truthy_def)
  have f1: "filteredQuakes s2n ?s1 = [q]"
    using a by (simp add: filteredQuakes_def step_Settled App_init_def)
  have f2: "filteredQuakes s2n ?s2 = []"
    using a by (simp add: filteredQuakes_def step_Settled step_SliderMoved App_init_def)
  have r1: "rendered_markers s2n ?s1 = [quake_marker s2n q]"
    using rendered_markers_shown [OF g1, of s2n] f1 by simp
  have c: "background (icon (quake_marker s2n q)) = ''red''"
    using a by (simp add: background_quake_marker getColor_def)
  have p: "position (quake_marker s2n q) = (Number (Fin 34.0), Number (Fin (- 118.2)))"
    using a by (simp add: position_quake_marker elem_def)
  show "\<exists>mk. rendered_markers s2n ?s1 = [mk] \<and> key mk = id_q q
             \<and> position mk = (Number (Fin 34.0), Number (Fin (- 118.2)))
             \<and> background (icon mk) = ''red''"
    using r1 c p key_quake_marker [of s2n q] by (intro exI [of _ "quake_marker s2n q"] conjI)
  show "minMagnitude ?s1 = Fin 0"
    by (simp add: step_Settled App_init_def)
  show "rendered_markers s2n ?s2 = []"
    using rendered_markers_shown [OF g2, of s2n] f2 by simp
qed

theorem markers_of_filtered_witness:
  "coordinates (geometry (sample_quake 6.2))
     = [Number (Fin (- 118.2)), Number (Fin 34.0), Number (Fin 10)]
   \<and> mag (properties (sample_quake 6.2)) = Number (Fin 6.2)
   \<and> map position (rendered_markers (\<lambda>s. NaN)
        (run App_init [Settled (Parsed [sample_quake 6.2])]))
       = [(Number (Fin 34.0), Number (Fin (- 118.2)))]
   \<and> map key (rendered_markers (\<lambda>s. NaN)
        (run App_init [Settled (Parsed [sample_quake 6.2])])) = [String ''us7000'']
   \<and> map (\<lambda>mk. background (icon mk)) (rendered_markers (\<lambda>s. NaN)
        (run App_init [Settled (Parsed [sample_quake 6.2])])) = [''red'']
   \<and> rendered_markers (\<lambda>s. NaN)
        (run App_init [Settled (Parsed [sample_quake 6.2]), SliderMoved (Fin 6.5)]) = []"
proof -
  have a: "coordinates (geometry (sample_quake 6.2))
             = [Number (Fin (- 118.2)), Number (Fin 34.0), Number (Fin 10)]
           \<and> mag (properties (sample_quake 6.2)) = Number (Fin 6.2)"
    by (simp add: sample_quake_def)
  note t = markers_of_filtered [of App_init "\<lambda>s. NaN" "sample_quake 6.2",
      THEN conjunct2, rule_format, OF a]
  from t obtain mk where mk:
    "rendered_markers (\<lambda>s. NaN) (run App_init [Settled (Parsed [sample_quake 6.2])]) = [mk]"
    "key mk = id_q (sample_quake 6.2)"
    "position mk = (Number (Fin 34.0), Number (Fin (- 118.2)))"
    "background (icon mk) = ''red''"
    by (elim exE conjE)
  have i: "id_q (sample_quake 6.2) = String ''us7000''"
    by (simp add: sample_quake_def)
  have z: "rendered_markers (\<lambda>s. NaN)
        (run App_init [Settled (Parsed [sample_quake 6.2]), SliderMoved (Fin 6.5)]) = []"
    using t by (elim conjE)
  show ?thesis
    using a mk i z by simp
qed

text \<open>
  Claim C9 (amended). The width and the height of the icon are the same number,
  \<open>8 + mag * 3\<close> in double-precision arithmetic: the product is rounded to a double,
  then the sum is. For a magnitude between -10 and 10 the size is finite and differs
  from the exact \<open>8 + 3 m\<close> by at most \<open>2\<^sup>-\<^sup>4\<^sup>7\<close>. The size never decreases when the
  magnitude grows, and it grows strictly between two such magnitudes that are at
  least \<open>2\<^sup>-\<^sup>4\<^sup>7\<close> apart.
\<close>

theorem marker_size:
  "width (createMarkerIcon s2n m) = js_add (Fin 8) (js_mul (ToNumber s2n m) (Fin 3))
   \<and> height (createMarkerIcon s2n m) = width (createMarkerIcon s2n m)
   \<and> (a \<le> b \<longrightarrow>
        js_le (width (createMarkerIcon s2n (Number (Fin a))))
              (width (createMarkerIcon s2n (Number (Fin b)))))
   \<and> (\<bar>a\<bar> \<le> 10 \<longrightarrow>
        (\<exists>w. width (createMarkerIcon s2n (Number (Fin a))) = Fin w
             \<and> \<bar>w - (8 + 3 * a)\<bar> \<le> 1 / 2 ^ 47))
   \<and> (\<bar>a\<bar> \<le> 10 \<and> \<bar>b\<bar> \<le> 10 \<and> a + 1 / 2 ^ 47 \<le> b \<longrightarrow>
        lessThan_num (width (createMarkerIcon s2n (Number (Fin a))))
                     (width (createMarkerIcon s2n (Number (Fin b)))) = Some True)"
proof -
  have w: "width (createMarkerIcon s2n v) = js_add (Fin 8) (js_mul (ToNumber s2n v) (Fin 3))"
    for v
    by (simp add: createMarkerIcon_def Let_def)
  have h: "height (createMarkerIcon s2n m) = width (createMarkerIcon s2n m)"
    by (simp add: createMarkerIcon_def Let_def)
  have mono: "a \<le> b \<longrightarrow>
        js_le (width (createMarkerIcon s2n (Number (Fin a))))
              (width (createMarkerIcon s2n (Number (Fin b))))"
  proof
    assume "a \<le> b"
    then have "js_le (js_mul (Fin a) (Fin 3)) (js_mul (Fin b) (Fin 3))"
      by (rule js_mul_3_mono)
    then have "js_le (js_add (Fin 8) (js_mul (Fin a) (Fin 3)))
                     (js_add (Fin 8) (js_mul (Fin b) (Fin 3)))"
      by (rule js_add_8_mono)
    then show "js_le (width (createMarkerIcon s2n (Number (Fin a))))
                     (width (createMarkerIcon s2n (Number (Fin b))))"
      by (simp only: w ToNumber.simps)
  qed
  have err: "\<bar>a\<bar> \<le> 10 \<longrightarrow>
        (\<exists>w. width (createMarkerIcon s2n (Number (Fin a))) = Fin w
             \<and> \<bar>w - (8 + 3 * a)\<bar> \<le> 1 / 2 ^ 47)"
    unfolding w using size_error [of a] by simp
  have strict: "\<bar>a\<bar> \<le> 10 \<and> \<bar>b\<bar> \<le> 10 \<and> a + 1 / 2 ^ 47 \<le> b \<longrightarrow>
        lessThan_num (width (createMarkerIcon s2n (Number (Fin a))))
                     (width (createMarkerIcon s2n (Number (Fin b)))) = Some True"
    unfolding w using size_strict [of a b] by simp
  show ?thesis
    using w [of m] h mono err strict by (intro conjI)
qed

theorem marker_size_witness:
  "(4.5::real) \<le> 6.2 \<and> \<bar>4.5::real\<bar> \<le> 10 \<and> \<bar>6.2::real\<bar> \<le> 10
   \<and> (4.5::real) + 1 / 2 ^ 47 \<le> 6.2
   \<and> width (createMarkerIcon (\<lambda>s. NaN) (Number (Fin 4.5))) = Fin 21.5
   \<and> height (createMarkerIcon (\<lambda>s. NaN) (Number (Fin 4.5))) = Fin 21.5
   \<and> js_le (width (createMarkerIcon (\<lambda>s. NaN) (Number (Fin 4.5))))
            (width (createMarkerIcon (\<lambda>s. NaN) (Number (Fin 6.2))))
   \<and> lessThan_num (width (createMarkerIcon (\<lambda>s. NaN) (Number (Fin 4.5))))
                   (width (createMarkerIcon (\<lambda>s. NaN) (Number (Fin 6.2)))) = Some True"
proof -
  have a: "(4.5::real) \<le> 6.2"
    by simp
  have b: "\<bar>4.5::real\<bar> \<le> 10 \<and> \<bar>6.2::real\<bar> \<le> 10 \<and> (4.5::real) + 1 / 2 ^ 47 \<le> 6.2"
    by simp
  note t = marker_size [of "\<lambda>s. NaN" "Number (Fin 4.5)" "4.5" "6.2"]
  have e: "js_add (Fin 8) (js_mul (Fin 4.5) (Fin 3)) = Fin 21.5"
    by (simp add: fl_def rnd_def ulp_exp_def bexp_def compute_bitlen rne_def Let_def)
  have 1: "width (createMarkerIcon (\<lambda>s. NaN) (Number (Fin 4.5))) = Fin 21.5"
    using t [THEN conjunct1] e by simp
  have 2: "height (createMarkerIcon (\<lambda>s. NaN) (Number (Fin 4.5))) = Fin 21.5"
    using t [THEN conjunct2, THEN conjunct1] 1 by simp
  have 3: "js_le (width (createMarkerIcon (\<lambda>s. NaN) (Number (Fin 4.5))))
            (width (createMarkerIcon (\<lambda>s. NaN) (Number (Fin 6.2))))"
    using t [THEN conjunct2, THEN conjunct2, THEN conjunct1, rule_format, OF a] .
  have 4: "lessThan_num (width (createMarkerIcon (\<lambda>s. NaN) (Number (Fin 4.5))))
                   (width (createMarkerIcon (\<lambda>s. NaN) (Number (Fin 6.2)))) = Some True"
    using t [THEN conjunct2, THEN conjunct2, THEN conjunct2, THEN conjunct2, rule_format, OF b] .
  show ?thesis
    using a b 1 2 3 4 by (intro conjI) simp_all
qed

text \<open>
  Claim C9 as first stated, with the size equal to \<open>8 + 3 m\<close> and strictly increasing,
  fails: two neighbouring doubles just above 1.5 get the same size, and at the double
  nearest to 0.1 the size is not the exact \<open>8 + 3 m\<close>.
\<close>

theorem marker_size_counterexample:
  "(6755399441055746 / 2 ^ 52 :: real) < 6755399441055747 / 2 ^ 52
   \<and> fl (6755399441055746 / 2 ^ 52) = Fin (6755399441055746 / 2 ^ 52)
   \<and> fl (6755399441055747 / 2 ^ 52) = Fin (6755399441055747 / 2 ^ 52)
   \<and> width (createMarkerIcon (\<lambda>s. NaN) (Number (Fin (6755399441055746 / 2 ^ 52))))
       = width (createMarkerIcon (\<lambda>s. NaN) (Number (Fin (6755399441055747 / 2 ^ 52))))
   \<and> lessThan_num
         (width (createMarkerIcon (\<lambda>s. NaN) (Number (Fin (6755399441055746 / 2 ^ 52)))))
         (width (createMarkerIcon (\<lambda>s. NaN) (Number (Fin (6755399441055747 / 2 ^ 52)))))
       = Some False
   \<and> fl (1 / 10) = Fin (3602879701896397 / 2 ^ 55)
   \<and> width (createMarkerIcon (\<lambda>s. NaN) (Number (Fin (3602879701896397 / 2 ^ 55))))
       \<noteq> Fin (8 + 3 * (3602879701896397 / 2 ^ 55))"
proof -
  have w: "width (createMarkerIcon (\<lambda>s. NaN) (Number (Fin x)))
             = js_add (Fin 8) (js_mul (Fin x) (Fin 3))" for x
    by (simp add: createMarkerIcon_def Let_def)
  have t: "fl (1 / 10) = Fin (3602879701896397 / 2 ^ 55)"
    by (simp add: fl_def rnd_def ulp_exp_def bexp_def compute_bitlen rne_def Let_def)
  have n: "js_add (Fin 8) (js_mul (Fin (3602879701896397 / 2 ^ 55)) (Fin 3))
             \<noteq> Fin (8 + 3 * (3602879701896397 / 2 ^ 55))"
    by (simp add: fl_def rnd_def ulp_exp_def bexp_def compute_bitlen rne_def Let_def)
  show ?thesis
    unfolding w using size_collision t n by simp
qed

end
